theory Spec2Isabelle
  imports Complex_Main "HOL-Library.Char_ord" "HOL-Library.List_Lexorder"
    "HOL-Library.Product_Lexorder"
begin

section \<open>Data model of \<open>sales_app.py\<close>\<close>

text \<open>
  The dashboard reads one sheet of sales transactions into a pandas DataFrame, filters it
  by the sidebar widgets and aggregates it in \<open>calculate_kpis\<close>.

  A DataFrame is modelled as its list of column names together with its rows. A row of the
  sheet is a record with one typed field per required column; the loaded frame extends
  that record with the four derived columns. A cell of a column that \<open>calculate_kpis\<close>
  groups by may be blank (NaN in pandas): such a cell is \<open>None\<close>. The cells of the other
  columns are taken as filled. Looking a column up by name raises
  \<open>KeyError\<close> when the name is not among the frame's columns, so the column-less frame
  \<open>pd.DataFrame()\<close> is distinguished from a frame that has the columns and no rows.

  Amounts are int64 or float64 in pandas. They are modelled as exact rationals, so the
  model computes what the code computes as long as the code's arithmetic is exact: on
  whole numbers of moderate size in particular. Wrap-around of int64 and the rounding
  error of float64 are outside the model. A float that is not finite (NaN or an
  infinity) is \<open>None\<close>.
  A calendar date is the triple (year, month, day) in lexicographic order, a monthly
  period the pair (year, month).
\<close>

datatype error = KeyError string | ValueError | FileNotFoundError | ZeroDivisionError | OtherError

type_synonym date = "nat \<times> nat \<times> nat"
type_synonym period_M = "nat \<times> nat"

record raw_row =
  Invoice_ID :: string
  Branch :: string
  City :: "string option"
  Customer_type :: "string option"
  Gender :: "string option"
  Product_line :: "string option"
  Unit_price :: rat
  Quantity :: int
  Tax_5 :: rat
  Total :: rat
  Date :: string
  Time :: string
  Payment :: string
  cogs :: rat
  gross_margin_percentage :: rat
  gross_income :: rat
  Rating :: rat

record row = raw_row +
  hour :: "nat option"
  date :: date
  week :: date
  month :: "period_M option"

record 'r DataFrame =
  columns :: "string list"
  rows :: "'r list"

text \<open>\<open>pd.DataFrame()\<close>: no columns, no rows.\<close>

definition empty_DataFrame :: "'r DataFrame" where
  "empty_DataFrame = \<lparr>columns = [], rows = []\<rparr>"

text \<open>\<open>df.empty\<close>: some axis has length 0.\<close>

definition is_empty :: "'r DataFrame \<Rightarrow> bool" where
  "is_empty df = (columns df = [] \<or> rows df = [])"

text \<open>\<open>len(df)\<close>.\<close>

definition len :: "'r DataFrame \<Rightarrow> nat" where
  "len df = length (rows df)"

text \<open>Sequencing of computations that may raise.\<close>

definition ebind :: "error + 'a \<Rightarrow> ('a \<Rightarrow> error + 'b) \<Rightarrow> error + 'b" where
  "ebind m f = (case m of Inl e \<Rightarrow> Inl e | Inr v \<Rightarrow> f v)"

text \<open>\<open>df[c]\<close>: the values of column \<open>c\<close> in row order, or \<open>KeyError\<close>.\<close>

definition getitem :: "'r DataFrame \<Rightarrow> string \<Rightarrow> ('r \<Rightarrow> 'a) \<Rightarrow> error + 'a list" where
  "getitem df c field =
     (if c \<in> set (columns df) then Inr (map field (rows df)) else Inl (KeyError c))"

text \<open>\<open>Series.unique()\<close>: the distinct values in order of first appearance.\<close>

fun unique :: "'a list \<Rightarrow> 'a list" where
  "unique [] = []"
| "unique (x # xs) = x # unique (filter (\<lambda>y. y \<noteq> x) xs)"

text \<open>
  \<open>Series.duplicated()\<close> with the default \<open>keep='first'\<close>: the flag of an entry is set
  when its value has been seen before it. The first argument is the values already seen.
\<close>

fun duplicated_from :: "'a list \<Rightarrow> 'a list \<Rightarrow> bool list" where
  "duplicated_from seen [] = []"
| "duplicated_from seen (x # xs) = (x \<in> set seen) # duplicated_from (x # seen) xs"

definition duplicated :: "'a list \<Rightarrow> bool list" where
  "duplicated xs = duplicated_from [] xs"

text \<open>The cells of a column that are not blank.\<close>

fun dropna :: "'a option list \<Rightarrow> 'a list" where
  "dropna [] = []"
| "dropna (None # xs) = dropna xs"
| "dropna (Some x # xs) = x # dropna xs"

text \<open>Sum of a boolean series: the number of set flags.\<close>

definition sum_bool :: "bool list \<Rightarrow> nat" where
  "sum_bool bs = length (filter (\<lambda>b. b) bs)"

subsection \<open>Decimal rounding\<close>

text \<open>
  \<open>round(x, n)\<close> and \<open>Series.round(n)\<close> round to \<open>n\<close> decimals, ties to the even
  neighbour. The model rounds the exact value. The code rounds the float64 nearest to
  it: the two agree on whole numbers, and can differ by one unit of the last decimal on
  a value such as 1.015, which float64 stores just below the tie.
\<close>

definition round_half_even :: "rat \<Rightarrow> int" where
  "round_half_even x =
     (let f = \<lfloor>x\<rfloor>; d = x - of_int f
      in if d < 1 / 2 then f
         else if 1 / 2 < d then f + 1
         else if even f then f else f + 1)"

definition round_nd :: "rat \<Rightarrow> nat \<Rightarrow> rat" where
  "round_nd x n = of_int (round_half_even (x * 10 ^ n)) / 10 ^ n"

text \<open>Rounding a float that may not be finite: NaN and the infinities stay as they are.\<close>

definition round_float :: "rat option \<Rightarrow> nat \<Rightarrow> rat option" where
  "round_float x n = map_option (\<lambda>v. round_nd v n) x"

subsection \<open>Division\<close>

text \<open>
  Dividing a numpy scalar (the result of a column sum) does not raise: a zero divisor
  gives NaN or an infinity, with a warning. Dividing one Python \<open>int\<close> by another raises
  \<open>ZeroDivisionError\<close> on a zero divisor.
\<close>

definition np_truediv :: "rat \<Rightarrow> rat \<Rightarrow> rat option" where
  "np_truediv x y = (if y = 0 then None else Some (x / y))"

definition py_truediv :: "nat \<Rightarrow> nat \<Rightarrow> error + rat" where
  "py_truediv x y = (if y = 0 then Inl ZeroDivisionError else Inr (of_nat x / of_nat y))"


section \<open>The loader: \<open>load_data\<close>\<close>

text \<open>
  The workbook is what \<open>pd.read_excel\<close> finds: either the exception it raises (file or
  sheet missing, unreadable content) or the sheet with all of its rows. \<open>nrows\<close> keeps
  the leading rows only.
\<close>

definition read_excel :: "error + raw_row DataFrame \<Rightarrow> nat \<Rightarrow> error + raw_row DataFrame" where
  "read_excel io nrows =
     (case io of
        Inl e \<Rightarrow> Inl e
      | Inr sheet \<Rightarrow> Inr (sheet\<lparr>rows := take nrows (rows sheet)\<rparr>))"

definition required_columns :: "string list" where
  "required_columns =
     [''Invoice ID'', ''Branch'', ''City'', ''Customer_type'', ''Gender'', ''Product line'',
      ''Unit price'', ''Quantity'', ''Tax 5%'', ''Total'', ''Date'', ''Time'', ''Payment'',
      ''cogs'', ''gross margin percentage'', ''gross income'', ''Rating'']"

text \<open>
  The four derived columns of one row. The parsers belong to pandas and are parameters:
  \<open>to_hour\<close> is \<open>pd.to_datetime(_, format="%H:%M:%S").dt.hour\<close>, \<open>to_date\<close> is
  \<open>pd.to_datetime(_).dt.date\<close>, both \<open>None\<close> where pandas raises, and \<open>week_start\<close> is
  the start of the weekly period of a date. The monthly period is the year and month of
  the date. The \<open>Date\<close> and \<open>Time\<close> cells of a sheet are taken as filled, so the loader
  derives an hour and a month for every row.
\<close>

definition add_derived ::
  "(string \<Rightarrow> nat option) \<Rightarrow> (string \<Rightarrow> date option) \<Rightarrow> (date \<Rightarrow> date) \<Rightarrow> raw_row \<Rightarrow> row option"
where
  "add_derived to_hour to_date week_start r =
     (case to_hour (Time r) of
        None \<Rightarrow> None
      | Some h \<Rightarrow>
          (case to_date (Date r) of
             None \<Rightarrow> None
           | Some d \<Rightarrow>
               Some \<lparr>Invoice_ID = Invoice_ID r, Branch = Branch r, City = City r,
                     Customer_type = Customer_type r, Gender = Gender r,
                     Product_line = Product_line r, Unit_price = Unit_price r,
                     Quantity = Quantity r, Tax_5 = Tax_5 r, Total = Total r,
                     Date = Date r, Time = Time r, Payment = Payment r, cogs = cogs r,
                     gross_margin_percentage = gross_margin_percentage r,
                     gross_income = gross_income r, Rating = Rating r,
                     hour = Some h, date = d, week = week_start d,
                     month = Some (fst d, fst (snd d))\<rparr>))"

text \<open>
  Every exception raised inside \<open>load_data\<close> is caught by one of its handlers, and each
  handler returns \<open>pd.DataFrame()\<close>, as does the check of the required columns.
\<close>

definition load_data ::
  "(string \<Rightarrow> nat option) \<Rightarrow> (string \<Rightarrow> date option) \<Rightarrow> (date \<Rightarrow> date) \<Rightarrow>
   error + raw_row DataFrame \<Rightarrow> row DataFrame"
where
  "load_data to_hour to_date week_start io =
     (case read_excel io 1000 of
        Inl e \<Rightarrow> empty_DataFrame
      | Inr df \<Rightarrow>
          if list_ex (\<lambda>col. col \<notin> set (columns df)) required_columns then empty_DataFrame
          else (case those (map (add_derived to_hour to_date week_start) (rows df)) of
                  None \<Rightarrow> empty_DataFrame
                | Some rs \<Rightarrow>
                    \<lparr>columns = required_columns @ [''hour'', ''date'', ''week'', ''month''],
                     rows = rs\<rparr>))"

section \<open>The sidebar filters: \<open>filtered_df\<close>\<close>

text \<open>
  \<open>st.sidebar.date_input(_, [])\<close> yields the tuple of the dates picked so far, here a
  list. An empty tuple is falsy; any other is unpacked into two bounds, which raises
  \<open>ValueError\<close> unless it has exactly two entries.
\<close>

definition date_range_filter :: "row DataFrame \<Rightarrow> date list \<Rightarrow> error + row DataFrame" where
  "date_range_filter df date_range =
     (if date_range \<noteq> [] then
        (case date_range of
           [start_date, end_date] \<Rightarrow>
             ebind (getitem df ''date'' date) (\<lambda>_.
               Inr (df\<lparr>rows := filter (\<lambda>r. start_date \<le> date r \<and> date r \<le> end_date)
                                       (rows df)\<rparr>))
         | _ \<Rightarrow> Inl ValueError)
      else Inr df)"

text \<open>
  \<open>st.sidebar.multiselect\<close>: the widget's value is its default until the user has
  touched it (\<open>None\<close>), and the user's selection afterwards. The options are cells of a
  column, so a blank cell is among them when the column has one, and \<open>isin\<close> matches a
  blank cell against a blank entry of the selection.
\<close>

definition multiselect :: "'a list \<Rightarrow> 'a list \<Rightarrow> 'a list option \<Rightarrow> 'a list" where
  "multiselect options default_sel chosen =
     (case chosen of None \<Rightarrow> default_sel | Some sel \<Rightarrow> sel)"

text \<open>One sidebar selector over a column of the loaded frame.\<close>

definition column_filter ::
  "row DataFrame \<Rightarrow> string \<Rightarrow> (row \<Rightarrow> string option) \<Rightarrow> string option list option \<Rightarrow>
   error + string option list"
where
  "column_filter df c field chosen =
     ebind (getitem df c field) (\<lambda>vals.
       Inr (multiselect (unique vals) (if \<not> is_empty df then unique vals else []) chosen))"

text \<open>Lines 74 to 101: the date range first, then the three membership tests together.\<close>

definition filtered_df ::
  "row DataFrame \<Rightarrow> date list \<Rightarrow> string option list option \<Rightarrow>
   string option list option \<Rightarrow> string option list option \<Rightarrow> error + row DataFrame"
where
  "filtered_df df date_range city_sel customer_type_sel gender_sel =
     ebind (date_range_filter df date_range) (\<lambda>fdf.
     ebind (column_filter df ''City'' City city_sel) (\<lambda>city_filter.
     ebind (column_filter df ''Customer_type'' Customer_type customer_type_sel)
       (\<lambda>customer_type_filter.
     ebind (column_filter df ''Gender'' Gender gender_sel) (\<lambda>gender_filter.
     ebind (getitem fdf ''City'' City) (\<lambda>_.
     ebind (getitem fdf ''Customer_type'' Customer_type) (\<lambda>_.
     ebind (getitem fdf ''Gender'' Gender) (\<lambda>_.
       Inr (fdf\<lparr>rows := filter (\<lambda>r. City r \<in> set city_filter \<and>
                                    Customer_type r \<in> set customer_type_filter \<and>
                                    Gender r \<in> set gender_filter) (rows fdf)\<rparr>))))))))"

section \<open>The aggregator: \<open>calculate_kpis\<close>\<close>

record kpis =
  total_sales :: rat
  total_transactions :: nat
  avg_sale_per_transaction :: "rat option"
  avg_rating :: "rat option"
  total_customers :: nat
  product_sales :: "(string \<times> rat) list"
  hour_sales :: "(nat \<times> rat) list"
  monthly_sales :: "(period_M \<times> rat) list"
  customer_type_sales :: "(string \<times> rat) list"
  gender_sales :: "(string \<times> rat) list"
  city_sales :: "(string \<times> rat) list"
  repeat_customer_rate :: "rat option"
  clv :: "rat option"

text \<open>\<open>Series.mean()\<close> is NaN on an empty series.\<close>

definition mean :: "rat list \<Rightarrow> rat option" where
  "mean xs = (if xs = [] then None else Some (sum_list xs / of_nat (length xs)))"

text \<open>
  \<open>df.groupby(by)[c].sum()\<close>: one entry per distinct key, keys in ascending order, each
  with the sum of column \<open>c\<close> over the rows bearing that key. By the default
  \<open>dropna=True\<close> a blank key makes no group, so the rows with a blank key are left out.
  \<open>group_sums\<close> works on the key column and the value column, which are aligned row by
  row. The dictionary made from the result is the list of its entries in that order.
\<close>

definition group_sums :: "'k::linorder option list \<Rightarrow> rat list \<Rightarrow> ('k \<times> rat) list" where
  "group_sums ks vs =
     map (\<lambda>k. (k, sum_list (map snd (filter (\<lambda>kv. fst kv = Some k) (zip ks vs)))))
         (sort (unique (dropna ks)))"

definition groupby_sum ::
  "'r DataFrame \<Rightarrow> string \<Rightarrow> ('r \<Rightarrow> 'k::linorder option) \<Rightarrow> string \<Rightarrow> ('r \<Rightarrow> rat) \<Rightarrow>
   error + ('k \<times> rat) list"
where
  "groupby_sum df by_col key c val =
     ebind (getitem df by_col key) (\<lambda>ks.
     ebind (getitem df c val) (\<lambda>vs. Inr (group_sums ks vs)))"

definition round_values :: "('k \<times> rat) list \<Rightarrow> nat \<Rightarrow> ('k \<times> rat) list" where
  "round_values kvs n = map (\<lambda>(k, v). (k, round_nd v n)) kvs"

text \<open>Line 119, the local \<open>repeat_customers\<close>.\<close>

definition repeat_customers :: "row DataFrame \<Rightarrow> error + nat" where
  "repeat_customers df =
     ebind (getitem df ''Invoice ID'' Invoice_ID) (\<lambda>ids. Inr (sum_bool (duplicated ids)))"

definition calculate_kpis :: "row DataFrame \<Rightarrow> error + kpis" where
  "calculate_kpis df =
     ebind (getitem df ''Total'' Total) (\<lambda>totals.
     let total_sales = round_nd (sum_list totals) 2;
         total_transactions = len df;
         avg_sale_per_transaction =
           (if total_transactions > 0
            then round_float (np_truediv total_sales (of_nat total_transactions)) 2
            else Some 0)
     in
     ebind (getitem df ''Rating'' Rating) (\<lambda>ratings.
     let avg_rating = round_float (mean ratings) 1 in
     ebind (getitem df ''Invoice ID'' Invoice_ID) (\<lambda>ids.
     let total_customers = length (unique ids) in
     ebind (groupby_sum df ''Product line'' Product_line ''Total'' Total) (\<lambda>by_product.
     ebind (groupby_sum df ''hour'' hour ''Total'' Total) (\<lambda>by_hour.
     ebind (groupby_sum df ''month'' month ''Total'' Total) (\<lambda>by_month.
     ebind (groupby_sum df ''Customer_type'' Customer_type ''Total'' Total) (\<lambda>by_customer_type.
     ebind (groupby_sum df ''Gender'' Gender ''Total'' Total) (\<lambda>by_gender.
     ebind (groupby_sum df ''City'' City ''Total'' Total) (\<lambda>by_city.
     ebind (repeat_customers df) (\<lambda>repeat_customers.
     let repeat_customer_rate =
           (if total_customers > 0
            then round_float
                   (map_option (\<lambda>q. q * 100)
                      (np_truediv (of_nat repeat_customers) (of_nat total_customers))) 2
            else Some 0);
         avg_purchase_value =
           (if total_customers > 0
            then np_truediv total_sales (of_nat total_customers) else Some 0)
     in
     ebind (if total_customers > 0
            then py_truediv total_transactions total_customers else Inr 0)
       (\<lambda>purchase_frequency.
     let avg_customer_value = map_option (\<lambda>v. v * purchase_frequency) avg_purchase_value;
         avg_customer_lifespan = 5;
         clv = round_float (map_option (\<lambda>v. v * avg_customer_lifespan) avg_customer_value) 2
     in
       Inr \<lparr>total_sales = total_sales,
            total_transactions = total_transactions,
            avg_sale_per_transaction = avg_sale_per_transaction,
            avg_rating = avg_rating,
            total_customers = total_customers,
            product_sales = round_values by_product 2,
            hour_sales = round_values by_hour 2,
            monthly_sales = round_values by_month 2,
            customer_type_sales = round_values by_customer_type 2,
            gender_sales = round_values by_gender 2,
            city_sales = round_values by_city 2,
            repeat_customer_rate = repeat_customer_rate,
            clv = clv\<rparr>)))))))))))"

section \<open>Notions used in the statements\<close>

text \<open>The columns of a frame that \<open>load_data\<close> has built from a complete sheet.\<close>

definition loaded_columns :: "string list" where
  "loaded_columns = required_columns @ [''hour'', ''date'', ''week'', ''month'']"

text \<open>
  Every value's occurrences are contiguous: once a run of equal entries has ended, its
  value does not come back.
\<close>

fun contiguous :: "'a list \<Rightarrow> bool" where
  "contiguous [] = True"
| "contiguous (x # xs) = (x \<notin> set (dropWhile (\<lambda>y. y = x) xs) \<and> contiguous xs)"

text \<open>
  A row for worked examples: the fields the examples speak of are arguments, the others
  are fixed.
\<close>

definition example_row ::
  "string \<Rightarrow> string \<Rightarrow> string \<Rightarrow> string \<Rightarrow> rat \<Rightarrow> nat \<Rightarrow> date \<Rightarrow> row"
where
  "example_row ident cty ctype gen amount h d =
     \<lparr>Invoice_ID = ident, Branch = ''A'', City = Some cty,
      Customer_type = Some ctype, Gender = Some gen,
      Product_line = Some ''Health and beauty'', Unit_price = amount,
      Quantity = 1, Tax_5 = 0, Total = amount,
      Date = [], Time = [], Payment = ''Cash'', cogs = amount,
      gross_margin_percentage = 0, gross_income = 0, Rating = 7,
      hour = Some h, date = d, week = d, month = Some (fst d, fst (snd d))\<rparr>"

text \<open>
  Three records as in the worked scenario of the dashboard's description: totals 10, 20
  and 30, cities X, Y, Y, invoice ids I1, I2, I2.
\<close>

definition three_records :: "row DataFrame" where
  "three_records =
     \<lparr>columns = loaded_columns,
      rows = [example_row ''I1'' ''X'' ''Member'' ''Male'' 10 9 (2024, 1, 1),
              example_row ''I2'' ''Y'' ''Normal'' ''Female'' 20 14 (2024, 1, 2),
              example_row ''I2'' ''Y'' ''Normal'' ''Female'' 30 14 (2024, 1, 2)]\<rparr>"

text \<open>Six records with the invoice ids A, A, B, C, C, C.\<close>

definition six_invoices :: "row DataFrame" where
  "six_invoices =
     \<lparr>columns = loaded_columns,
      rows = map (\<lambda>i. example_row i ''X'' ''Member'' ''Male'' 10 9 (2024, 1, 1))
                 [''A'', ''A'', ''B'', ''C'', ''C'', ''C'']\<rparr>"

text \<open>An empty collection that has the loaded columns.\<close>

definition no_records :: "row DataFrame" where
  "no_records = \<lparr>columns = loaded_columns, rows = []\<rparr>"

text \<open>
  The three records of the literal scenario. The scenario fixes the invoice id, the city,
  the customer type, the gender, the total, the date and the time of each record; the
  hour and the month follow from those, and every other field is left as it is in the
  rows \<open>r1\<close>, \<open>r2\<close>, \<open>r3\<close> given.
\<close>

definition literal_records :: "row \<Rightarrow> row \<Rightarrow> row \<Rightarrow> row DataFrame" where
  "literal_records r1 r2 r3 =
     \<lparr>columns = loaded_columns,
      rows = [r1\<lparr>Invoice_ID := ''I1'', City := Some ''X'', Customer_type := Some ''Member'',
                Gender := Some ''Male'', Total := 10, Date := ''2024-01-01'',
                Time := ''09:00:00'', hour := Some 9, date := (2024, 1, 1),
                month := Some (2024, 1)\<rparr>,
              r2\<lparr>Invoice_ID := ''I2'', City := Some ''Y'', Customer_type := Some ''Normal'',
                Gender := Some ''Female'', Total := 20, Date := ''2024-01-02'',
                Time := ''14:00:00'', hour := Some 14, date := (2024, 1, 2),
                month := Some (2024, 1)\<rparr>,
              r3\<lparr>Invoice_ID := ''I2'', City := Some ''Y'', Customer_type := Some ''Normal'',
                Gender := Some ''Female'', Total := 30, Date := ''2024-01-02'',
                Time := ''14:00:00'', hour := Some 14, date := (2024, 1, 2),
                month := Some (2024, 1)\<rparr>]\<rparr>"

text \<open>
  A sidebar selector selects everything when it is untouched or when the selection made
  is the full set of the values observed in the column.
\<close>

definition selects_all :: "string option list option \<Rightarrow> string option list \<Rightarrow> bool" where
  "selects_all chosen vals = (case chosen of None \<Rightarrow> True | Some sel \<Rightarrow> set sel = set vals)"

text \<open>A row of a sheet, a sheet that lacks the last required column, and a sheet of 1500 rows.\<close>

definition raw_example :: raw_row where
  "raw_example =
     \<lparr>Invoice_ID = ''I1'', Branch = ''A'', City = Some ''X'',
      Customer_type = Some ''Member'', Gender = Some ''Male'',
      Product_line = Some ''Health and beauty'', Unit_price = 10,
      Quantity = 1, Tax_5 = 0, Total = 10, Date = ''2024-01-01'', Time = ''09:00:00'',
      Payment = ''Cash'', cogs = 10, gross_margin_percentage = 0, gross_income = 0,
      Rating = 7\<rparr>"

definition short_sheet :: "raw_row DataFrame" where
  "short_sheet = \<lparr>columns = butlast required_columns, rows = [raw_example]\<rparr>"

definition long_sheet :: "raw_row DataFrame" where
  "long_sheet = \<lparr>columns = required_columns, rows = replicate 1500 raw_example\<rparr>"




section \<open>Auxiliary facts\<close>

subsection \<open>Distinct values and repeated entries\<close>

lemma set_unique: "set (unique xs) = set xs"
  by (induction xs rule: unique.induct) auto

lemma distinct_unique: "distinct (unique xs)"
  by (induction xs rule: unique.induct) (auto simp: set_unique)

lemma length_unique: "length (unique xs) = card (set xs)"
  by (metis distinct_card distinct_unique set_unique)

lemma unique_eq_Nil: "unique xs = [] \<longleftrightarrow> xs = []"
  by (cases xs) auto

lemma sum_bool_duplicated_from:
  "sum_bool (duplicated_from seen xs) + card (set xs - set seen) = length xs"
proof (induction xs arbitrary: seen)
  case Nil
  show ?case by (simp add: sum_bool_def)
next
  case (Cons x xs)
  have IH: "sum_bool (duplicated_from (x # seen) xs) + card (set xs - insert x (set seen)) = length xs"
    using Cons.IH [of "x # seen"] by simp
  show ?case
  proof (cases "x \<in> set seen")
    case True
    then have "set (x # xs) - set seen = set xs - insert x (set seen)" by auto
    then have "card (set (x # xs) - set seen) = card (set xs - insert x (set seen))"
      by (rule arg_cong)
    moreover have "sum_bool (duplicated_from seen (x # xs)) =
                   Suc (sum_bool (duplicated_from (x # seen) xs))"
      using True by (simp add: sum_bool_def)
    ultimately show ?thesis using IH by (simp only: length_Cons add_Suc)
  next
    case False
    then have "set (x # xs) - set seen = insert x (set xs - insert x (set seen))" by auto
    then have "card (set (x # xs) - set seen) = card (insert x (set xs - insert x (set seen)))"
      by (rule arg_cong)
    also have "\<dots> = Suc (card (set xs - insert x (set seen)))"
      by (rule card_insert_disjoint) auto
    finally have "card (set (x # xs) - set seen) = Suc (card (set xs - insert x (set seen)))" .
    moreover have "sum_bool (duplicated_from seen (x # xs)) =
                   sum_bool (duplicated_from (x # seen) xs)"
      using False by (simp add: sum_bool_def)
    ultimately show ?thesis using IH by (simp only: length_Cons add_Suc_right)
  qed
qed

lemma sum_bool_duplicated: "sum_bool (duplicated xs) + length (unique xs) = length xs"
  using sum_bool_duplicated_from [of "[]" xs] by (simp add: duplicated_def length_unique)

lemma length_duplicated_from: "length (duplicated_from seen xs) = length xs"
  by (induction xs arbitrary: seen) auto

lemma duplicated_from_nth:
  "i < length xs \<Longrightarrow>
   duplicated_from seen xs ! i = (xs ! i \<in> set seen \<or> xs ! i \<in> set (take i xs))"
proof (induction xs arbitrary: seen i)
  case Nil
  then show ?case by simp
next
  case (Cons x xs)
  show ?case
  proof (cases i)
    case 0
    then show ?thesis by simp
  next
    case (Suc j)
    with Cons.prems have "j < length xs" by simp
    from Cons.IH [OF this, of "x # seen"] Suc show ?thesis by auto
  qed
qed

lemma sum_bool_duplicated_card:
  "sum_bool (duplicated xs) = card {i. i < length xs \<and> (\<exists>j<i. xs ! j = xs ! i)}"
proof -
  have "sum_bool (duplicated xs) = card {i. i < length xs \<and> duplicated xs ! i}"
    by (simp add: sum_bool_def length_filter_conv_card duplicated_def length_duplicated_from)
  also have "{i. i < length xs \<and> duplicated xs ! i} =
             {i. i < length xs \<and> (\<exists>j<i. xs ! j = xs ! i)}"
  proof (rule Collect_cong, rule conj_cong [OF refl])
    fix i assume i: "i < length xs"
    have "duplicated xs ! i = (xs ! i \<in> set (take i xs))"
      using duplicated_from_nth [OF i, of "[]"] by (simp add: duplicated_def)
    also have "\<dots> = (\<exists>j<i. xs ! j = xs ! i)"
      using i by (auto simp: in_set_conv_nth)
    finally show "duplicated xs ! i = (\<exists>j<i. xs ! j = xs ! i)" .
  qed
  finally show ?thesis .
qed

subsection \<open>Group sums and rounding\<close>







lemma round_nd_0: "round_nd 0 n = 0"
  by (simp add: round_nd_def round_half_even_def)





lemma group_sums_Nil: "group_sums [] [] = []"
  by (simp add: group_sums_def)

subsection \<open>Frames that have the loaded columns\<close>

lemma getitem_present:
  "c \<in> set (columns df) \<Longrightarrow> getitem df c field = Inr (map field (rows df))"
  by (simp add: getitem_def)

lemma loaded_columns_present:
  assumes "set loaded_columns \<subseteq> set (columns df)"
  shows "''Total'' \<in> set (columns df)" "''Rating'' \<in> set (columns df)"
    "''Invoice ID'' \<in> set (columns df)" "''Product line'' \<in> set (columns df)"
    "''hour'' \<in> set (columns df)" "''month'' \<in> set (columns df)"
    "''Customer_type'' \<in> set (columns df)" "''Gender'' \<in> set (columns df)"
    "''City'' \<in> set (columns df)" "''date'' \<in> set (columns df)"
  using assms by (simp_all add: loaded_columns_def required_columns_def)

lemma groupby_sum_present:
  "by_col \<in> set (columns df) \<Longrightarrow> c \<in> set (columns df) \<Longrightarrow>
   groupby_sum df by_col key c val = Inr (group_sums (map key (rows df)) (map val (rows df)))"
  by (simp add: groupby_sum_def getitem_def ebind_def)

lemma repeat_customers_present:
  "''Invoice ID'' \<in> set (columns df) \<Longrightarrow>
   repeat_customers df = Inr (sum_bool (duplicated (map Invoice_ID (rows df))))"
  by (simp add: repeat_customers_def getitem_def ebind_def)

lemma calculate_kpis_present:
  assumes "set loaded_columns \<subseteq> set (columns df)"
  shows "\<exists>k. calculate_kpis df = Inr k
    \<and> total_sales k = round_nd (sum_list (map Total (rows df))) 2
    \<and> total_transactions k = length (rows df)
    \<and> total_customers k = length (unique (map Invoice_ID (rows df)))
    \<and> avg_sale_per_transaction k =
           (if rows df = [] then Some 0
            else Some (round_nd (total_sales k / of_nat (length (rows df))) 2))
    \<and> avg_rating k = round_float (mean (map Rating (rows df))) 1
    \<and> product_sales k =
           round_values (group_sums (map Product_line (rows df)) (map Total (rows df))) 2
    \<and> hour_sales k = round_values (group_sums (map hour (rows df)) (map Total (rows df))) 2
    \<and> monthly_sales k =
           round_values (group_sums (map month (rows df)) (map Total (rows df))) 2
    \<and> customer_type_sales k =
           round_values (group_sums (map Customer_type (rows df)) (map Total (rows df))) 2
    \<and> gender_sales k =
           round_values (group_sums (map Gender (rows df)) (map Total (rows df))) 2
    \<and> city_sales k = round_values (group_sums (map City (rows df)) (map Total (rows df))) 2
    \<and> repeat_customer_rate k =
           (if rows df = [] then Some 0
            else Some (round_nd (of_nat (sum_bool (duplicated (map Invoice_ID (rows df)))) /
                                 of_nat (total_customers k) * 100) 2))
    \<and> clv k =
           (if rows df = [] then Some 0
            else Some (round_nd (total_sales k / of_nat (total_customers k) *
                                 (of_nat (length (rows df)) / of_nat (total_customers k)) * 5)
                         2))"
proof -
  note cols = loaded_columns_present [OF assms]
  note defs = calculate_kpis_def ebind_def Let_def getitem_present groupby_sum_present
    repeat_customers_present cols len_def unique_eq_Nil np_truediv_def py_truediv_def
    round_float_def round_nd_0
  let ?k = "projr (calculate_kpis df)"
  have run: "calculate_kpis df = Inr ?k"
    by (simp add: defs)
  show ?thesis
    by (rule exI [of _ ?k], intro conjI, rule run) (simp_all add: defs)
qed

lemma calculate_kpis_no_rows:
  assumes "set loaded_columns \<subseteq> set (columns df)" and "rows df = []"
  shows "calculate_kpis df =
     Inr \<lparr>total_sales = 0, total_transactions = 0, avg_sale_per_transaction = Some 0,
          avg_rating = None, total_customers = 0, product_sales = [],
          hour_sales = [], monthly_sales = [], customer_type_sales = [],
          gender_sales = [], city_sales = [], repeat_customer_rate = Some 0,
          clv = Some 0\<rparr>"
proof -
  note cols = loaded_columns_present [OF assms(1)]
  show ?thesis
    by (simp add: calculate_kpis_def ebind_def Let_def getitem_present groupby_sum_present
        repeat_customers_present cols len_def assms(2) round_nd_0 group_sums_Nil
        round_values_def mean_def duplicated_def sum_bool_def round_float_def)
qed

text \<open>
  What the guards are for: without them, the divisions of an empty collection would give
  NaN, and the division of the two counts would raise.
\<close>

lemma unguarded_divisions:
  "round_float (np_truediv 0 (of_nat 0)) 2 = None" "py_truediv 0 0 = Inl ZeroDivisionError"
  by (simp_all add: np_truediv_def py_truediv_def round_float_def)

subsection \<open>The sidebar filters\<close>

lemma column_filter_present:
  "c \<in> set (columns df) \<Longrightarrow>
   column_filter df c field chosen =
     Inr (multiselect (unique (map field (rows df)))
            (if \<not> is_empty df then unique (map field (rows df)) else []) chosen)"
  by (simp add: column_filter_def getitem_def ebind_def)

lemma date_range_filter_Nil: "date_range_filter df [] = Inr df"
  by (simp add: date_range_filter_def)

lemma date_range_filter_pair:
  "''date'' \<in> set (columns df) \<Longrightarrow>
   date_range_filter df [lo, hi] =
     Inr (df\<lparr>rows := filter (\<lambda>r. lo \<le> date r \<and> date r \<le> hi) (rows df)\<rparr>)"
  by (simp add: date_range_filter_def getitem_def ebind_def)

lemma date_range_filter_columns:
  "date_range_filter df date_range = Inr fdf \<Longrightarrow> columns fdf = columns df"
  by (auto simp: date_range_filter_def getitem_def ebind_def
      split: if_splits list.splits)

lemma filtered_df_present:
  assumes "set loaded_columns \<subseteq> set (columns df)"
    and "date_range_filter df date_range = Inr fdf" and "columns fdf = columns df"
  shows "filtered_df df date_range city_sel customer_type_sel gender_sel =
     Inr (fdf\<lparr>rows := filter (\<lambda>r.
        City r \<in> set (multiselect (unique (map City (rows df)))
            (if \<not> is_empty df then unique (map City (rows df)) else []) city_sel) \<and>
        Customer_type r \<in> set (multiselect (unique (map Customer_type (rows df)))
            (if \<not> is_empty df then unique (map Customer_type (rows df)) else [])
            customer_type_sel) \<and>
        Gender r \<in> set (multiselect (unique (map Gender (rows df)))
            (if \<not> is_empty df then unique (map Gender (rows df)) else []) gender_sel))
       (rows fdf)\<rparr>)"
proof -
  note cols = loaded_columns_present [OF assms(1)]
  show ?thesis
    by (simp add: filtered_df_def assms(2,3) ebind_def column_filter_present getitem_present cols)
qed

lemma filtered_df_columns:
  assumes "filtered_df df date_range city_sel customer_type_sel gender_sel = Inr fdf"
  shows "columns fdf = columns df \<and> ''City'' \<in> set (columns df)"
proof -
  from assms obtain f0 where f0: "date_range_filter df date_range = Inr f0"
    by (cases "date_range_filter df date_range") (simp_all add: filtered_df_def ebind_def)
  have c0: "columns f0 = columns df" by (rule date_range_filter_columns [OF f0])
  from assms f0 have city: "''City'' \<in> set (columns df)"
    by (simp add: filtered_df_def ebind_def column_filter_def getitem_def split: if_splits)
  from assms f0 c0 have "columns fdf = columns df"
    by (auto simp: filtered_df_def ebind_def column_filter_def getitem_def split: if_splits)
  with city show ?thesis by simp
qed

lemma multiselect_all:
  assumes "selects_all chosen (map field (rows df))" and "r \<in> set (rows df)"
    and "columns df \<noteq> []"
  shows "field r \<in> set (multiselect (unique (map field (rows df)))
            (if \<not> is_empty df then unique (map field (rows df)) else []) chosen)"
proof (cases chosen)
  case None
  from assms(2,3) have "\<not> is_empty df" by (auto simp: is_empty_def)
  with None assms(2) show ?thesis by (simp add: multiselect_def set_unique)
next
  case (Some sel)
  with assms(1,2) show ?thesis by (simp add: multiselect_def selects_all_def)
qed

lemma filtered_df_select_all:
  assumes "set loaded_columns \<subseteq> set (columns df)"
    and "selects_all city_sel (map City (rows df))"
    and "selects_all customer_type_sel (map Customer_type (rows df))"
    and "selects_all gender_sel (map Gender (rows df))"
  shows "filtered_df df [] city_sel customer_type_sel gender_sel = Inr df"
proof -
  from loaded_columns_present(1) [OF assms(1)] have ne: "columns df \<noteq> []" by auto
  have keep: "filter (\<lambda>r.
        City r \<in> set (multiselect (unique (map City (rows df)))
            (if \<not> is_empty df then unique (map City (rows df)) else []) city_sel) \<and>
        Customer_type r \<in> set (multiselect (unique (map Customer_type (rows df)))
            (if \<not> is_empty df then unique (map Customer_type (rows df)) else [])
            customer_type_sel) \<and>
        Gender r \<in> set (multiselect (unique (map Gender (rows df)))
            (if \<not> is_empty df then unique (map Gender (rows df)) else []) gender_sel))
       (rows df) = rows df"
    by (rule filter_True) (intro ballI conjI multiselect_all assms(2-4) ne)
  have "filtered_df df [] city_sel customer_type_sel gender_sel = Inr (df\<lparr>rows := rows df\<rparr>)"
    by (simp only: filtered_df_present [OF assms(1) date_range_filter_Nil refl] keep)
  then show ?thesis by simp
qed

lemma filtered_df_untouched:
  assumes "set loaded_columns \<subseteq> set (columns df)"
  shows "filtered_df df [] None None None = Inr df"
  by (rule filtered_df_select_all [OF assms]) (simp_all add: selects_all_def)

subsection \<open>The loader\<close>

lemma those_map_Some:
  "\<forall>x\<in>set xs. f x \<noteq> None \<Longrightarrow> those (map f xs) = Some (map (\<lambda>x. the (f x)) xs)"
  by (induction xs) auto

lemma add_derived_Some:
  "to_hour (Time r) \<noteq> None \<Longrightarrow> to_date (Date r) \<noteq> None \<Longrightarrow>
   add_derived to_hour to_date week_start r \<noteq> None"
  by (auto simp: add_derived_def)

lemma add_derived_all:
  "\<forall>r\<in>set rs. to_hour (Time r) \<noteq> None \<and> to_date (Date r) \<noteq> None \<Longrightarrow>
   \<forall>r\<in>set rs. add_derived to_hour to_date week_start r \<noteq> None"
  by (simp add: add_derived_Some)

lemma read_excel_sheet:
  "read_excel (Inr sheet) n = Inr (sheet\<lparr>rows := take n (rows sheet)\<rparr>)"
  by (simp add: read_excel_def)

lemma list_ex_missing:
  "list_ex (\<lambda>col. col \<notin> set cs) required_columns \<longleftrightarrow> \<not> set required_columns \<subseteq> set cs"
  by (auto simp: list_ex_iff)

lemma load_data_complete:
  assumes "set required_columns \<subseteq> set (columns sheet)"
    and "\<forall>r\<in>set (take 1000 (rows sheet)).
           to_hour (Time r) \<noteq> None \<and> to_date (Date r) \<noteq> None"
  shows "load_data to_hour to_date week_start (Inr sheet) =
     \<lparr>columns = loaded_columns,
      rows = map (\<lambda>r. the (add_derived to_hour to_date week_start r))
                 (take 1000 (rows sheet))\<rparr>"
proof -
  have "\<forall>r\<in>set (take 1000 (rows sheet)). add_derived to_hour to_date week_start r \<noteq> None"
    by (rule add_derived_all [OF assms(2)])
  from those_map_Some [OF this] assms(1) show ?thesis
    by (simp add: load_data_def read_excel_sheet list_ex_missing loaded_columns_def)
qed

lemma load_data_columns:
  "load_data to_hour to_date week_start io = empty_DataFrame \<or>
   columns (load_data to_hour to_date week_start io) = loaded_columns"
  by (simp add: load_data_def loaded_columns_def split: sum.split option.split)

lemma load_data_missing_column:
  assumes "c \<in> set required_columns" and "c \<notin> set (columns sheet)"
  shows "load_data to_hour to_date week_start (Inr sheet) = empty_DataFrame"
proof -
  from assms have "\<not> set required_columns \<subseteq> set (columns sheet)" by blast
  then show ?thesis by (simp add: load_data_def read_excel_sheet list_ex_missing)
qed

subsection \<open>The column-less frame\<close>

text \<open>
  On \<open>pd.DataFrame()\<close> every column lookup raises, so the sidebar code stops at its first
  lookup. Hence a frame that gets through the filters of a loaded dataset has the loaded
  columns.
\<close>

lemma filtered_df_empty_DataFrame:
  "filtered_df empty_DataFrame [] city_sel customer_type_sel gender_sel = Inl (KeyError ''City'')"
  by (simp add: filtered_df_def date_range_filter_def column_filter_def getitem_def ebind_def
      empty_DataFrame_def)

lemma calculate_kpis_reached:
  assumes "filtered_df (load_data to_hour to_date week_start io) date_range
             city_sel customer_type_sel gender_sel = Inr fdf"
  shows "set loaded_columns \<subseteq> set (columns fdf)"
proof -
  let ?df = "load_data to_hour to_date week_start io"
  from filtered_df_columns [OF assms]
  have c: "columns fdf = columns ?df" and m: "''City'' \<in> set (columns ?df)" by simp_all
  from m have "?df \<noteq> empty_DataFrame" by (auto simp: empty_DataFrame_def)
  with load_data_columns [of to_hour to_date week_start io]
  have "columns ?df = loaded_columns" by simp
  with c show ?thesis by simp
qed

section \<open>The claims\<close>

text \<open>
  The theorems on record collections are stated for the frames that have the columns of a
  loaded dataset (\<open>set loaded_columns \<subseteq> set (columns df)\<close>) and any number of rows,
  none included. The frame without columns that \<open>load_data\<close> falls back to is the
  subject of C2 and C7.
\<close>

subsection \<open>C1: grouped sales add up to the total sales\<close>




subsection \<open>C2: the empty collection\<close>


subsection \<open>C3: selecting everything changes nothing\<close>

text \<open>
  Claim C3. For every loaded dataset, the filter stage with no date range and with each
  of the three selectors selecting everything (untouched, or set to the full set of the
  values observed in its column) returns the dataset itself, so that
  \<open>calculate_kpis\<close> after the filter stage yields exactly what \<open>calculate_kpis\<close> yields on
  the unfiltered dataset.
\<close>

theorem full_selection_reproduces_kpis:
  assumes "set loaded_columns \<subseteq> set (columns df)"
    and "selects_all city_sel (map City (rows df))"
    and "selects_all customer_type_sel (map Customer_type (rows df))"
    and "selects_all gender_sel (map Gender (rows df))"
  shows "filtered_df df [] city_sel customer_type_sel gender_sel = Inr df \<and>
         ebind (filtered_df df [] city_sel customer_type_sel gender_sel) calculate_kpis =
           calculate_kpis df"
proof -
  have same: "filtered_df df [] city_sel customer_type_sel gender_sel = Inr df"
    by (rule filtered_df_select_all [OF assms])
  then show ?thesis by (simp add: ebind_def)
qed

theorem full_selection_reproduces_kpis_witness:
  "set loaded_columns \<subseteq> set (columns three_records) \<and>
   selects_all (Some [Some ''X'', Some ''Y'']) (map City (rows three_records)) \<and>
   selects_all (Some [Some ''Normal'', Some ''Member'']) (map Customer_type (rows three_records)) \<and>
   selects_all None (map Gender (rows three_records)) \<and>
   filtered_df three_records [] (Some [Some ''X'', Some ''Y'']) (Some [Some ''Normal'', Some ''Member'']) None =
     Inr three_records \<and>
   ebind (filtered_df three_records [] (Some [Some ''X'', Some ''Y'']) (Some [Some ''Normal'', Some ''Member''])
            None) calculate_kpis = calculate_kpis three_records"
proof -
  have h: "set loaded_columns \<subseteq> set (columns three_records)"
    by (simp add: three_records_def)
  have a: "selects_all (Some [Some ''X'', Some ''Y'']) (map City (rows three_records))"
    by (simp add: selects_all_def three_records_def example_row_def)
  have b: "selects_all (Some [Some ''Normal'', Some ''Member''])
             (map Customer_type (rows three_records))"
    by (auto simp: selects_all_def three_records_def example_row_def)
  have c: "selects_all None (map Gender (rows three_records))"
    by (simp add: selects_all_def)
  from full_selection_reproduces_kpis [OF h a b c] h a b c show ?thesis by blast
qed

subsection \<open>C4: an empty selection excludes every row\<close>

text \<open>
  Claim C4. For every record collection and every date range that is absent or has both
  bounds, if one of the three selectors (cities, customer types, genders) is set to the
  empty selection, the filtered collection has no rows, and \<open>calculate_kpis\<close> on it
  gives \<open>total_transactions = 0\<close> with every other metric at its zero default.
\<close>

theorem empty_selection_excludes_all:
  assumes "set loaded_columns \<subseteq> set (columns df)"
    and "length date_range = 0 \<or> length date_range = 2"
    and "city_sel = Some [] \<or> customer_type_sel = Some [] \<or> gender_sel = Some []"
  shows "\<exists>fdf. filtered_df df date_range city_sel customer_type_sel gender_sel = Inr fdf \<and>
           rows fdf = [] \<and>
           calculate_kpis fdf =
             Inr \<lparr>total_sales = 0, total_transactions = 0, avg_sale_per_transaction = Some 0,
                  avg_rating = None, total_customers = 0, product_sales = [],
                  hour_sales = [], monthly_sales = [], customer_type_sales = [],
                  gender_sales = [], city_sales = [], repeat_customer_rate = Some 0, clv = Some 0\<rparr>"
proof -
  note cols = loaded_columns_present [OF assms(1)]
  from assms(2) obtain f0 where f0: "date_range_filter df date_range = Inr f0"
    and c0: "columns f0 = columns df"
  proof
    assume "length date_range = 0"
    then have "date_range_filter df date_range = Inr df" by (simp add: date_range_filter_Nil)
    then show thesis by (rule that) simp
  next
    assume "length date_range = 2"
    then obtain lo hi where "date_range = [lo, hi]"
      by (auto simp: length_Suc_conv numeral_2_eq_2)
    then have "date_range_filter df date_range =
       Inr (df\<lparr>rows := filter (\<lambda>r. lo \<le> date r \<and> date r \<le> hi) (rows df)\<rparr>)"
      by (simp add: date_range_filter_pair cols)
    then show thesis by (rule that) simp
  qed
  define keep where "keep = (\<lambda>r :: row.
        City r \<in> set (multiselect (unique (map City (rows df)))
            (if \<not> is_empty df then unique (map City (rows df)) else []) city_sel) \<and>
        Customer_type r \<in> set (multiselect (unique (map Customer_type (rows df)))
            (if \<not> is_empty df then unique (map Customer_type (rows df)) else [])
            customer_type_sel) \<and>
        Gender r \<in> set (multiselect (unique (map Gender (rows df)))
            (if \<not> is_empty df then unique (map Gender (rows df)) else []) gender_sel))"
  let ?fdf = "f0\<lparr>rows := filter keep (rows f0)\<rparr>"
  have run: "filtered_df df date_range city_sel customer_type_sel gender_sel = Inr ?fdf"
    unfolding keep_def by (rule filtered_df_present [OF assms(1) f0 c0])
  have none: "\<not> keep r" for r
    using assms(3) by (auto simp: keep_def multiselect_def)
  then have e: "rows ?fdf = []" by simp
  have "set loaded_columns \<subseteq> set (columns ?fdf)" using assms(1) c0 by simp
  from calculate_kpis_no_rows [OF this e] run e show ?thesis by blast
qed

theorem empty_selection_excludes_all_witness:
  "set loaded_columns \<subseteq> set (columns three_records) \<and>
   (length ([] :: date list) = 0 \<or> length ([] :: date list) = 2) \<and>
   (Some [] = Some ([] :: string option list) \<or> (None :: string option list option) = Some [] \<or>
    (None :: string option list option) = Some []) \<and>
   (\<exists>fdf. filtered_df three_records [] (Some []) None None = Inr fdf \<and> rows fdf = [] \<and>
      (\<exists>k. calculate_kpis fdf = Inr k \<and> total_transactions k = 0 \<and>
           avg_sale_per_transaction k = Some 0 \<and> repeat_customer_rate k = Some 0 \<and> clv k = Some 0))"
proof -
  have h: "set loaded_columns \<subseteq> set (columns three_records)"
    by (simp add: three_records_def)
  have d: "length ([] :: date list) = 0 \<or> length ([] :: date list) = 2" by simp
  have s: "Some [] = Some ([] :: string option list) \<or> (None :: string option list option) = Some [] \<or>
    (None :: string option list option) = Some []" by simp
  from empty_selection_excludes_all [OF h d s]
  obtain fdf where "filtered_df three_records [] (Some []) None None = Inr fdf" "rows fdf = []"
    "calculate_kpis fdf =
             Inr \<lparr>total_sales = 0, total_transactions = 0, avg_sale_per_transaction = Some 0,
                  avg_rating = None, total_customers = 0, product_sales = [],
                  hour_sales = [], monthly_sales = [], customer_type_sales = [],
                  gender_sales = [], city_sales = [], repeat_customer_rate = Some 0, clv = Some 0\<rparr>"
    by blast
  then have "\<exists>fdf. filtered_df three_records [] (Some []) None None = Inr fdf \<and> rows fdf = [] \<and>
      (\<exists>k. calculate_kpis fdf = Inr k \<and> total_transactions k = 0 \<and>
           avg_sale_per_transaction k = Some 0 \<and> repeat_customer_rate k = Some 0 \<and> clv k = Some 0)"
    by simp
  with h d s show ?thesis by (intro conjI)
qed

subsection \<open>C5: what the repeat count counts\<close>

text \<open>
  Claim C5. For every record collection, \<open>repeat_customers\<close> is the number of records
  whose invoice id occurs at a strictly earlier position; it equals
  \<open>total_transactions - total_customers\<close> whenever the occurrences of every invoice id
  are contiguous; and for the invoice ids A, A, B, C, C, C there are 3 customers and 3
  repeats.
\<close>

theorem repeat_customers_counts_later_occurrences:
  assumes "set loaded_columns \<subseteq> set (columns df)"
  shows "\<exists>k n. calculate_kpis df = Inr k \<and> repeat_customers df = Inr n \<and>
           n = card {i. i < length (rows df) \<and>
                        (\<exists>j<i. Invoice_ID (rows df ! j) = Invoice_ID (rows df ! i))} \<and>
           (contiguous (map Invoice_ID (rows df)) \<longrightarrow>
              n = total_transactions k - total_customers k) \<and>
           (map Invoice_ID (rows df) = [''A'', ''A'', ''B'', ''C'', ''C'', ''C''] \<longrightarrow>
              total_customers k = 3 \<and> n = 3)"
proof -
  let ?ids = "map Invoice_ID (rows df)"
  let ?n = "sum_bool (duplicated ?ids)"
  from calculate_kpis_present [OF assms] obtain k where k: "calculate_kpis df = Inr k"
    and f: "total_transactions k = length (rows df)"
     "total_customers k = length (unique ?ids)"
    by blast
  have n: "repeat_customers df = Inr ?n"
    by (rule repeat_customers_present) (rule loaded_columns_present [OF assms])
  have "?n = card {i. i < length ?ids \<and> (\<exists>j<i. ?ids ! j = ?ids ! i)}"
    by (rule sum_bool_duplicated_card)
  also have "{i. i < length ?ids \<and> (\<exists>j<i. ?ids ! j = ?ids ! i)} =
             {i. i < length (rows df) \<and>
                 (\<exists>j<i. Invoice_ID (rows df ! j) = Invoice_ID (rows df ! i))}"
    by (rule Collect_cong) auto
  finally have count: "?n = card {i. i < length (rows df) \<and>
                 (\<exists>j<i. Invoice_ID (rows df ! j) = Invoice_ID (rows df ! i))}" .
  have "?n + length (unique ?ids) = length (rows df)"
    using sum_bool_duplicated [of ?ids] by simp
  then have diff: "?n = total_transactions k - total_customers k"
    by (simp add: f)
  have fixture: "?ids = [''A'', ''A'', ''B'', ''C'', ''C'', ''C''] \<longrightarrow>
                 total_customers k = 3 \<and> ?n = 3"
    by (simp add: f duplicated_def sum_bool_def)
  show ?thesis
    by (intro exI [of _ k] exI [of _ ?n] conjI k n count impI diff fixture)
qed

theorem repeat_customers_counts_later_occurrences_witness:
  "set loaded_columns \<subseteq> set (columns six_invoices) \<and>
   contiguous (map Invoice_ID (rows six_invoices)) \<and>
   map Invoice_ID (rows six_invoices) = [''A'', ''A'', ''B'', ''C'', ''C'', ''C''] \<and>
   (\<exists>k. calculate_kpis six_invoices = Inr k \<and> repeat_customers six_invoices = Inr 3 \<and>
        total_customers k = 3 \<and> total_transactions k - total_customers k = 3)"
proof -
  have h: "set loaded_columns \<subseteq> set (columns six_invoices)"
    by (simp add: six_invoices_def)
  have ids: "map Invoice_ID (rows six_invoices) = [''A'', ''A'', ''B'', ''C'', ''C'', ''C'']"
    by (simp add: six_invoices_def example_row_def)
  have c: "contiguous (map Invoice_ID (rows six_invoices))"
    by (simp add: ids)
  from repeat_customers_counts_later_occurrences [OF h] c ids
  obtain k where "calculate_kpis six_invoices = Inr k" "repeat_customers six_invoices = Inr 3"
    "total_customers k = 3" "total_transactions k - total_customers k = 3"
    by auto
  with h c ids show ?thesis by blast
qed

subsection \<open>C6: the literal scenario\<close>

text \<open>
  Claim C6. On the three records of the literal scenario (totals 10, 20, 30; cities X, Y,
  Y; invoice ids I1, I2, I2), whatever their other fields, \<open>calculate_kpis\<close> returns
  \<open>total_sales = 60\<close>, \<open>total_transactions = 3\<close>, \<open>total_customers = 2\<close>,
  \<open>repeat_customer_rate = 50\<close> and \<open>city_sales = {X: 10, Y: 50}\<close>, and its local
  \<open>repeat_customers\<close> is 1.
\<close>

theorem literal_scenario:
  "\<exists>k. calculate_kpis (literal_records r1 r2 r3) = Inr k \<and>
       total_sales k = 60 \<and> total_transactions k = 3 \<and> total_customers k = 2 \<and>
       repeat_customers (literal_records r1 r2 r3) = Inr 1 \<and>
       repeat_customer_rate k = Some 50 \<and> city_sales k = [(''X'', 10), (''Y'', 50)]"
proof -
  let ?df = "literal_records r1 r2 r3"
  have h: "set loaded_columns \<subseteq> set (columns ?df)" by (simp add: literal_records_def)
  from calculate_kpis_present [OF h] obtain k where k: "calculate_kpis ?df = Inr k"
    and f: "total_sales k = round_nd (sum_list (map Total (rows ?df))) 2"
     "total_transactions k = length (rows ?df)"
     "total_customers k = length (unique (map Invoice_ID (rows ?df)))"
     "city_sales k = round_values (group_sums (map City (rows ?df)) (map Total (rows ?df))) 2"
     "repeat_customer_rate k =
           (if rows ?df = [] then Some 0
            else Some (round_nd (of_nat (sum_bool (duplicated (map Invoice_ID (rows ?df)))) /
                                 of_nat (total_customers k) * 100) 2))"
    by blast
  have n: "repeat_customers ?df = Inr (sum_bool (duplicated (map Invoice_ID (rows ?df))))"
    by (rule repeat_customers_present) (rule loaded_columns_present [OF h])
  have ids: "map Invoice_ID (rows ?df) = [''I1'', ''I2'', ''I2'']"
    and totals: "map Total (rows ?df) = [10, 20, 30]"
    and cities: "map City (rows ?df) = [Some ''X'', Some ''Y'', Some ''Y'']"
    and ne: "rows ?df \<noteq> []" and len: "length (rows ?df) = 3"
    by (simp_all add: literal_records_def)
  have ts: "total_sales k = 60"
    by (simp add: f(1) totals round_nd_def round_half_even_def)
  have tt: "total_transactions k = 3" by (simp add: f(2) len)
  have tc: "total_customers k = 2" by (simp add: f(3) ids)
  have rc: "sum_bool (duplicated (map Invoice_ID (rows ?df))) = 1"
    by (simp add: ids duplicated_def sum_bool_def)
  have rr: "repeat_customer_rate k = Some 50"
    by (simp add: f(5) rc tc ne round_nd_def round_half_even_def)
  have cs: "city_sales k = [(''X'', 10), (''Y'', 50)]"
    by (simp add: f(4) cities totals group_sums_def round_values_def round_nd_def
        round_half_even_def)
  show ?thesis
    by (intro exI [of _ k] conjI k ts tt tc rr cs) (simp add: n rc)
qed

subsection \<open>C7: a missing column rejects the dataset\<close>

text \<open>
  Claim C7. When a required column is absent, \<open>load_data\<close> is to reject the dataset and
  return an empty dataset that the later stages can still work on. It returns
  \<open>pd.DataFrame()\<close>, which has no rows and no columns either, so the next stage, the
  sidebar code, raises \<open>KeyError\<close> at its first column lookup on line 83, although the
  test of \<open>df.empty\<close> on line 84 is there for the empty dataset. Here the sheet lacks the
  column \<open>Rating\<close> and the sidebar is untouched.
\<close>

theorem missing_column_breaks_downstream:
  "''Rating'' \<in> set required_columns \<and> ''Rating'' \<notin> set (columns short_sheet) \<and>
   load_data to_hour to_date week_start (Inr short_sheet) = empty_DataFrame \<and>
   filtered_df (load_data to_hour to_date week_start (Inr short_sheet)) [] None None None =
     Inl (KeyError ''City'')"
proof -
  have a: "''Rating'' \<in> set required_columns" by (simp add: required_columns_def)
  have b: "''Rating'' \<notin> set (columns short_sheet)"
    by (simp add: short_sheet_def required_columns_def)
  have c: "load_data to_hour to_date week_start (Inr short_sheet) = empty_DataFrame"
    by (rule load_data_missing_column [OF a b])
  show ?thesis by (intro conjI a b c) (simp only: c filtered_df_empty_DataFrame)
qed

subsection \<open>C8: the date range is inclusive\<close>

text \<open>
  Claim C8. For every record collection: with both bounds given, the date filter keeps
  exactly the records whose date lies between the lower and the upper bound, both
  included; with no range given it keeps every record.
\<close>

theorem date_range_filter_inclusive:
  assumes "''date'' \<in> set (columns df)"
  shows "(\<exists>fdf. date_range_filter df [lower, upper] = Inr fdf \<and> columns fdf = columns df \<and>
            rows fdf = filter (\<lambda>r. lower \<le> date r \<and> date r \<le> upper) (rows df) \<and>
            set (rows fdf) = {r \<in> set (rows df). lower \<le> date r \<and> date r \<le> upper}) \<and>
         date_range_filter df [] = Inr df"
  using assms by (simp add: date_range_filter_pair date_range_filter_Nil)

theorem date_range_filter_inclusive_witness:
  "''date'' \<in> set (columns three_records) \<and>
   (\<exists>fdf. date_range_filter three_records [(2024, 1, 2), (2024, 1, 2)] = Inr fdf \<and>
      rows fdf = [example_row ''I2'' ''Y'' ''Normal'' ''Female'' 20 14 (2024, 1, 2),
                  example_row ''I2'' ''Y'' ''Normal'' ''Female'' 30 14 (2024, 1, 2)]) \<and>
   date_range_filter three_records [] = Inr three_records"
proof -
  have h: "''date'' \<in> set (columns three_records)"
    by (simp add: three_records_def loaded_columns_def)
  from date_range_filter_inclusive [OF h, of "(2024, 1, 2)" "(2024, 1, 2)"]
  obtain fdf where f: "date_range_filter three_records [(2024, 1, 2), (2024, 1, 2)] = Inr fdf"
    "rows fdf = filter (\<lambda>r. (2024, 1, 2) \<le> date r \<and> date r \<le> (2024, 1, 2)) (rows three_records)"
    and e: "date_range_filter three_records [] = Inr three_records"
    by blast
  have "rows fdf = [example_row ''I2'' ''Y'' ''Normal'' ''Female'' 20 14 (2024, 1, 2),
                  example_row ''I2'' ''Y'' ''Normal'' ''Female'' 30 14 (2024, 1, 2)]"
    unfolding f(2) by (simp add: three_records_def example_row_def)
  with h f(1) e show ?thesis by blast
qed

subsection \<open>C9: the row cap\<close>

text \<open>
  Claim C9. For every sheet with the required columns whose first 1000 rows parse, only
  the first 1000 rows are loaded, and the initial unfiltered pass reports
  \<open>total_transactions = min 1000 n\<close> for a sheet of \<open>n\<close> rows: at most 1000, and
  exactly 1000 for a sheet of 1500 rows.
\<close>

theorem row_cap:
  assumes "set required_columns \<subseteq> set (columns sheet)"
    and "\<forall>r\<in>set (take 1000 (rows sheet)).
           to_hour (Time r) \<noteq> None \<and> to_date (Date r) \<noteq> None"
  shows "\<exists>rs k. load_data to_hour to_date week_start (Inr sheet) =
                  \<lparr>columns = loaded_columns, rows = rs\<rparr> \<and>
           map Some rs = map (add_derived to_hour to_date week_start) (take 1000 (rows sheet)) \<and>
           length rs = min 1000 (length (rows sheet)) \<and>
           ebind (filtered_df (load_data to_hour to_date week_start (Inr sheet))
                    [] None None None) calculate_kpis = Inr k \<and>
           total_transactions k = min 1000 (length (rows sheet)) \<and>
           total_transactions k \<le> 1000"
proof -
  let ?f = "add_derived to_hour to_date week_start"
  let ?rs = "map (\<lambda>r. the (?f r)) (take 1000 (rows sheet))"
  let ?df = "\<lparr>columns = loaded_columns, rows = ?rs\<rparr>"
  have load: "load_data to_hour to_date week_start (Inr sheet) = ?df"
    by (rule load_data_complete [OF assms])
  have "\<forall>r\<in>set (take 1000 (rows sheet)). ?f r \<noteq> None"
    by (rule add_derived_all [OF assms(2)])
  then have some: "map Some ?rs = map ?f (take 1000 (rows sheet))" by simp
  have len: "length ?rs = min 1000 (length (rows sheet))" by (simp add: min.commute)
  have cols: "set loaded_columns \<subseteq> set (columns ?df)" by simp
  from calculate_kpis_present [OF cols] obtain k where k: "calculate_kpis ?df = Inr k"
    and tt: "total_transactions k = length (rows ?df)" by blast
  have run: "ebind (filtered_df ?df [] None None None) calculate_kpis = Inr k"
    by (simp only: filtered_df_untouched [OF cols] ebind_def sum.case k)
  have tt': "total_transactions k = min 1000 (length (rows sheet))"
    using tt len by simp
  then have le: "total_transactions k \<le> 1000" by simp
  show ?thesis
    unfolding load by (intro exI [of _ ?rs] exI [of _ k] conjI refl some len run tt' le)
qed

theorem row_cap_witness:
  "set required_columns \<subseteq> set (columns long_sheet) \<and>
   length (rows long_sheet) = 1500 \<and>
   (\<exists>k. ebind (filtered_df (load_data (\<lambda>t. Some 9) (\<lambda>d. Some (2024, 1, 1)) (\<lambda>d. d)
                               (Inr long_sheet)) [] None None None) calculate_kpis = Inr k \<and>
        total_transactions k = 1000)"
proof -
  have a: "set required_columns \<subseteq> set (columns long_sheet)" by (simp add: long_sheet_def)
  have b: "\<forall>r\<in>set (take 1000 (rows long_sheet)).
      (\<lambda>t. Some (9::nat)) (Time r) \<noteq> None \<and> (\<lambda>d. Some (2024::nat, 1::nat, 1::nat)) (Date r) \<noteq> None"
    by simp
  have c: "length (rows long_sheet) = 1500" by (simp add: long_sheet_def)
  from row_cap [OF a b, of "\<lambda>d. d"] obtain k where
    "ebind (filtered_df (load_data (\<lambda>t. Some 9) (\<lambda>d. Some (2024, 1, 1)) (\<lambda>d. d)
                               (Inr long_sheet)) [] None None None) calculate_kpis = Inr k"
    "total_transactions k = min 1000 (length (rows long_sheet))"
    by blast
  with a c show ?thesis by (auto simp: c)
qed

subsection \<open>C10: repeats are rows minus distinct invoice ids\<close>

text \<open>
  Claim C10. For every record collection, with no assumption on the order of the invoice
  ids, \<open>repeat_customers\<close> equals \<open>total_transactions\<close> minus \<open>total_customers\<close>: the
  number of rows minus the number of distinct invoice ids.
\<close>

theorem repeat_customers_plus_customers:
  assumes "set loaded_columns \<subseteq> set (columns df)"
  shows "\<exists>k n. calculate_kpis df = Inr k \<and> repeat_customers df = Inr n \<and>
           n + total_customers k = total_transactions k \<and>
           n = total_transactions k - total_customers k \<and>
           total_transactions k = length (rows df) \<and>
           total_customers k = card (Invoice_ID ` set (rows df))"
proof -
  let ?ids = "map Invoice_ID (rows df)"
  from calculate_kpis_present [OF assms] obtain k where k: "calculate_kpis df = Inr k"
    and f: "total_transactions k = length (rows df)"
     "total_customers k = length (unique ?ids)"
    by blast
  have n: "repeat_customers df = Inr (sum_bool (duplicated ?ids))"
    by (rule repeat_customers_present) (rule loaded_columns_present [OF assms])
  have sum: "sum_bool (duplicated ?ids) + length (unique ?ids) = length (rows df)"
    using sum_bool_duplicated [of ?ids] by simp
  have "total_customers k = card (Invoice_ID ` set (rows df))"
    by (simp add: f length_unique)
  with k n f sum show ?thesis by simp
qed

theorem repeat_customers_plus_customers_witness:
  "set loaded_columns \<subseteq> set (columns three_records) \<and>
   (\<exists>k n. calculate_kpis three_records = Inr k \<and> repeat_customers three_records = Inr n \<and>
           n + total_customers k = total_transactions k \<and> total_transactions k = 3)"
proof -
  have h: "set loaded_columns \<subseteq> set (columns three_records)"
    by (simp add: three_records_def)
  have "length (rows three_records) = 3" by (simp add: three_records_def)
  with repeat_customers_plus_customers [OF h] h show ?thesis by auto
qed

end
